theory Spec2Isabelle
  imports Main "HOL-Library.Word"
begin

section \<open>Text values\<close>

text \<open>
  The TypeScript helpers work on JavaScript strings, which are sequences of 16-bit
  code units; the same representation is used for the text columns of the table.
\<close>

type_synonym code_unit = "16 word"
type_synonym js_string = "code_unit list"

definition of_ascii :: "string \<Rightarrow> js_string" where
  "of_ascii s = map (\<lambda>c. of_nat (of_char c)) s"

definition SPACE :: code_unit where
  "SPACE = 0x20"

text \<open>
  \<^verbatim>\<open>String.prototype.trim\<close> strips the code points of the ECMAScript productions
  WhiteSpace and LineTerminator from both ends; all of them are single code units.
\<close>

definition isWhiteSpace :: "code_unit \<Rightarrow> bool" where
  "isWhiteSpace c \<longleftrightarrow>
     c = 0x9 \<or> c = 0xA \<or> c = 0xB \<or> c = 0xC \<or> c = 0xD \<or> c = 0x20 \<or> c = 0xA0 \<or>
     c = 0x1680 \<or> (0x2000 \<le> c \<and> c \<le> 0x200A) \<or> c = 0x2028 \<or> c = 0x2029 \<or>
     c = 0x202F \<or> c = 0x205F \<or> c = 0x3000 \<or> c = 0xFEFF"

definition trim :: "js_string \<Rightarrow> js_string" where
  "trim s = rev (dropWhile isWhiteSpace (rev (dropWhile isWhiteSpace s)))"

text \<open>\<^verbatim>\<open>s.split(" ")\<close>: the pieces between single spaces; never an empty array.\<close>

fun split_space :: "js_string \<Rightarrow> js_string list" where
  "split_space [] = [[]]"
| "split_space (c # cs) =
     (if c = SPACE then [] # split_space cs
      else (case split_space cs of
              [] \<Rightarrow> [[c]]
            | w # ws \<Rightarrow> (c # w) # ws))"

text \<open>\<^verbatim>\<open>n[0]\<close>: the first code unit as a string, \<^verbatim>\<open>undefined\<close> on the empty string.\<close>

definition char_at0 :: "js_string \<Rightarrow> js_string option" where
  "char_at0 n = (case n of [] \<Rightarrow> None | c # _ \<Rightarrow> Some [c])"

text \<open>\<^verbatim>\<open>xs.join("")\<close>: an \<^verbatim>\<open>undefined\<close> element contributes the empty string.\<close>

definition join_empty :: "js_string option list \<Rightarrow> js_string" where
  "join_empty xs = concat (map (\<lambda>x. case x of None \<Rightarrow> [] | Some s \<Rightarrow> s) xs)"

datatype js_error = TypeError

section \<open>profile-utils\<close>

text \<open>
  \<^verbatim>\<open>generateInitials(fullName, fallbackEmail)\<close>. The Unicode case mapping of
  \<^verbatim>\<open>String.prototype.toUpperCase\<close> is a built-in of the runtime and is taken as the
  parameter \<open>toUpperCase\<close>. Calling it on \<^verbatim>\<open>undefined\<close> throws a TypeError.
\<close>

definition generateInitials ::
  "(js_string \<Rightarrow> js_string) \<Rightarrow> js_string \<Rightarrow> js_string \<Rightarrow> js_error + js_string" where
  "generateInitials toUpperCase fullName fallbackEmail =
     (let trimmedName = trim fullName in
      if trimmedName \<noteq> [] then
        Inr (toUpperCase (join_empty (map char_at0 (split_space trimmedName))))
      else
        (case char_at0 fallbackEmail of
           None \<Rightarrow> Inl TypeError
         | Some c \<Rightarrow> Inr (toUpperCase c)))"

text \<open>An upper-casing that agrees with the runtime's on ASCII letters, for evaluation.\<close>

definition ascii_toUpperCase :: "js_string \<Rightarrow> js_string" where
  "ascii_toUpperCase s = map (\<lambda>c. if 0x61 \<le> c \<and> c \<le> 0x7A then c - 0x20 else c) s"

record form_data =
  fd_full_name :: js_string
  fd_avatar_url :: js_string

definition sanitizeProfileData :: "form_data \<Rightarrow> form_data" where
  "sanitizeProfileData data =
     \<lparr>fd_full_name = trim (fd_full_name data), fd_avatar_url = trim (fd_avatar_url data)\<rparr>"

record parsed_url =
  protocol :: js_string
  hostname :: js_string

text \<open>\<^verbatim>\<open>try { body } catch { handler }\<close>\<close>

definition try_catch :: "js_error + 'a \<Rightarrow> (js_error + 'a) \<Rightarrow> js_error + 'a" where
  "try_catch body handler = (case body of Inl _ \<Rightarrow> handler | Inr v \<Rightarrow> Inr v)"

text \<open>
  \<^verbatim>\<open>isValidAvatarUrl(url)\<close>. The WHATWG URL parser behind \<^verbatim>\<open>new URL(url)\<close> is a
  built-in of the runtime and is taken as the parameter \<open>URL\<close>; it throws on a string
  it cannot parse.
\<close>

definition isValidAvatarUrl :: "(js_string \<Rightarrow> js_error + parsed_url) \<Rightarrow> js_string \<Rightarrow> js_error + bool" where
  "isValidAvatarUrl URL url =
     (if trim url = [] then Inr True
      else try_catch
             (case URL url of
                Inl e \<Rightarrow> Inl e
              | Inr parsedUrl \<Rightarrow>
                  Inr ((protocol parsedUrl = of_ascii ''http:'' \<or> protocol parsedUrl = of_ascii ''https:'')
                       \<and> length (hostname parsedUrl) > 0))
             (Inr False))"

text \<open>
  What the runtime's parser returns on the strings used in the unit tests of
  \<^verbatim>\<open>isValidAvatarUrl\<close>, for evaluation.
\<close>

definition URL_on_tests :: "js_string \<Rightarrow> js_error + parsed_url" where
  "URL_on_tests s =
     (if s = of_ascii ''https://example.com/avatar.jpg''
        then Inr \<lparr>protocol = of_ascii ''https:'', hostname = of_ascii ''example.com''\<rparr>
      else if s = of_ascii ''ftp://example.com/avatar.jpg''
        then Inr \<lparr>protocol = of_ascii ''ftp:'', hostname = of_ascii ''example.com''\<rparr>
      else Inl TypeError)"

section \<open>Rows of the database\<close>

type_synonym uuid = "128 word"
type_synonym timestamp = nat

text \<open>The columns of \<^verbatim>\<open>profiles\<close>; \<^verbatim>\<open>full_name\<close> and \<^verbatim>\<open>avatar_url\<close> are nullable.\<close>

record profile =
  p_id :: uuid
  p_email :: js_string
  p_full_name :: "js_string option"
  p_avatar_url :: "js_string option"
  p_created_at :: timestamp
  p_updated_at :: timestamp

text \<open>
  A \<^verbatim>\<open>jsonb\<close> member value: JSON null, a JSON string, or any other JSON value carried as
  its text rendering.
\<close>

datatype json_value = JNull | JString js_string | JOther js_string

datatype jsonb = JObject "(js_string \<times> json_value) list" | JNonObject

text \<open>The columns of \<^verbatim>\<open>auth.users\<close> that \<^verbatim>\<open>handle_new_user\<close> reads.\<close>

record auth_user =
  u_id :: uuid
  u_email :: js_string
  u_raw_user_meta_data :: "jsonb option"

record db =
  users :: "auth_user list"
  profiles :: "profile list"

definition empty_db :: db where
  "empty_db = \<lparr>users = [], profiles = []\<rparr>"

text \<open>\<^verbatim>\<open>j ->> key\<close>: the member as text; SQL NULL when \<open>j\<close> is NULL or not an object, when
  the member is missing and when it is JSON null.\<close>

definition json_get_text :: "jsonb option \<Rightarrow> js_string \<Rightarrow> js_string option" where
  "json_get_text j key =
     (case j of
        None \<Rightarrow> None
      | Some JNonObject \<Rightarrow> None
      | Some (JObject members) \<Rightarrow>
          (case map_of members key of
             None \<Rightarrow> None
           | Some JNull \<Rightarrow> None
           | Some (JString s) \<Rightarrow> Some s
           | Some (JOther t) \<Rightarrow> Some t))"

definition coalesce :: "'a option \<Rightarrow> 'a \<Rightarrow> 'a" where
  "coalesce a b = (case a of None \<Rightarrow> b | Some v \<Rightarrow> v)"

datatype sql_error =
    DuplicateObject
  | DependentObjectsStillExist
  | UndefinedFunction
  | UndefinedColumn
  | UniqueViolation
  | InsufficientPrivilege

section \<open>Catalog: policies, functions and triggers\<close>

datatype cmd = ForSelect | ForInsert | ForUpdate | ForDelete

text \<open>The one policy expression of the scripts: \<^verbatim>\<open>auth.uid() = id\<close>.\<close>

datatype expr = AuthUidEqId

record policy =
  pol_name :: string
  pol_cmd :: cmd
  pol_using :: "expr option"
  pol_with_check :: "expr option"

datatype plpgsql_body = InsertProfileFromNew | SetNewUpdatedAt

record function_def =
  fn_body :: plpgsql_body
  fn_security_definer :: bool

datatype timing = Before | After
datatype event = OnInsert | OnUpdate
datatype relation = AuthUsers | Profiles

record trigger =
  tg_name :: string
  tg_timing :: timing
  tg_event :: event
  tg_table :: relation
  tg_function :: string

record catalog =
  rls_enabled :: bool
  policies :: "policy list"
  routines :: "(string \<times> function_def) list"
  triggers :: "trigger list"

datatype stmt =
    DropPolicyIfExists string
  | EnableRowLevelSecurity
  | CreatePolicy policy
  | DropTriggerIfExists string relation
  | DropFunctionIfExists string
  | CreateOrReplaceFunction string function_def
  | CreateTrigger trigger

fun replace_function :: "string \<Rightarrow> function_def \<Rightarrow> (string \<times> function_def) list \<Rightarrow> (string \<times> function_def) list" where
  "replace_function f d [] = [(f, d)]"
| "replace_function f d (x # xs) =
     (if fst x = f then (f, d) # xs else x # replace_function f d xs)"

text \<open>
  One statement of a script against the catalog. \<^verbatim>\<open>create policy\<close> and
  \<^verbatim>\<open>create trigger\<close> fail on an existing name, \<^verbatim>\<open>drop function\<close> (without
  \<^verbatim>\<open>cascade\<close>) fails while a trigger still uses the function, the \<^verbatim>\<open>if exists\<close>
  forms succeed when there is nothing to drop.
\<close>

fun exec_stmt :: "stmt \<Rightarrow> catalog \<Rightarrow> sql_error + catalog" where
  "exec_stmt (DropPolicyIfExists n) c =
     Inr (c\<lparr>policies := filter (\<lambda>p. pol_name p \<noteq> n) (policies c)\<rparr>)"
| "exec_stmt EnableRowLevelSecurity c = Inr (c\<lparr>rls_enabled := True\<rparr>)"
| "exec_stmt (CreatePolicy p) c =
     (if \<exists>q\<in>set (policies c). pol_name q = pol_name p then Inl DuplicateObject
      else Inr (c\<lparr>policies := policies c @ [p]\<rparr>))"
| "exec_stmt (DropTriggerIfExists n t) c =
     Inr (c\<lparr>triggers := filter (\<lambda>g. \<not> (tg_name g = n \<and> tg_table g = t)) (triggers c)\<rparr>)"
| "exec_stmt (DropFunctionIfExists f) c =
     (if \<exists>g\<in>set (triggers c). tg_function g = f then Inl DependentObjectsStillExist
      else Inr (c\<lparr>routines := filter (\<lambda>x. fst x \<noteq> f) (routines c)\<rparr>))"
| "exec_stmt (CreateOrReplaceFunction f d) c =
     Inr (c\<lparr>routines := replace_function f d (routines c)\<rparr>)"
| "exec_stmt (CreateTrigger g) c =
     (if \<exists>h\<in>set (triggers c). tg_name h = tg_name g \<and> tg_table h = tg_table g
        then Inl DuplicateObject
      else if map_of (routines c) (tg_function g) = None then Inl UndefinedFunction
      else Inr (c\<lparr>triggers := triggers c @ [g]\<rparr>))"

fun run_script :: "stmt list \<Rightarrow> catalog \<Rightarrow> sql_error + catalog" where
  "run_script [] c = Inr c"
| "run_script (st # sts) c =
     (case exec_stmt st c of Inl e \<Rightarrow> Inl e | Inr c' \<Rightarrow> run_script sts c')"

subsection \<open>The scripts\<close>

definition handle_new_user_fn :: function_def where
  "handle_new_user_fn = \<lparr>fn_body = InsertProfileFromNew, fn_security_definer = True\<rparr>"

definition update_updated_at_column_fn :: function_def where
  "update_updated_at_column_fn = \<lparr>fn_body = SetNewUpdatedAt, fn_security_definer = False\<rparr>"

definition on_auth_user_created :: trigger where
  "on_auth_user_created =
     \<lparr>tg_name = ''on_auth_user_created'', tg_timing = After, tg_event = OnInsert,
      tg_table = AuthUsers, tg_function = ''public.handle_new_user''\<rparr>"

definition update_profiles_updated_at :: trigger where
  "update_profiles_updated_at =
     \<lparr>tg_name = ''update_profiles_updated_at'', tg_timing = Before, tg_event = OnUpdate,
      tg_table = Profiles, tg_function = ''public.update_updated_at_column''\<rparr>"

text \<open>The script that creates the functions and triggers; unqualified function names
  resolve to the schema \<^verbatim>\<open>public\<close>.\<close>

definition add_functions_sql :: "stmt list" where
  "add_functions_sql =
     [DropTriggerIfExists ''on_auth_user_created'' AuthUsers,
      DropTriggerIfExists ''update_profiles_updated_at'' Profiles,
      DropFunctionIfExists ''public.handle_new_user'',
      DropFunctionIfExists ''public.update_updated_at_column'',
      CreateOrReplaceFunction ''public.handle_new_user'' handle_new_user_fn,
      CreateOrReplaceFunction ''public.update_updated_at_column'' update_updated_at_column_fn,
      CreateTrigger on_auth_user_created,
      CreateTrigger update_profiles_updated_at]"

definition view_policy :: policy where
  "view_policy = \<lparr>pol_name = ''Users can view own profile'', pol_cmd = ForSelect,
                  pol_using = Some AuthUidEqId, pol_with_check = None\<rparr>"

definition insert_policy :: policy where
  "insert_policy = \<lparr>pol_name = ''Users can insert their own profile.'', pol_cmd = ForInsert,
                    pol_using = None, pol_with_check = Some AuthUidEqId\<rparr>"

definition update_policy :: policy where
  "update_policy = \<lparr>pol_name = ''Users can update own profile.'', pol_cmd = ForUpdate,
                    pol_using = Some AuthUidEqId, pol_with_check = None\<rparr>"

definition delete_policy :: policy where
  "delete_policy = \<lparr>pol_name = ''Users can delete own profile.'', pol_cmd = ForDelete,
                    pol_using = Some AuthUidEqId, pol_with_check = None\<rparr>"

definition enable_rls_policies_sql :: "stmt list" where
  "enable_rls_policies_sql =
     [DropPolicyIfExists ''Users can view own profile'',
      DropPolicyIfExists ''Users can insert their own profile.'',
      DropPolicyIfExists ''Users can update own profile.'',
      DropPolicyIfExists ''Users can delete own profile.'',
      EnableRowLevelSecurity,
      CreatePolicy view_policy,
      CreatePolicy insert_policy,
      CreatePolicy update_policy,
      CreatePolicy delete_policy]"

definition setup_scripts :: "stmt list" where
  "setup_scripts = add_functions_sql @ enable_rls_policies_sql"

fun run_times :: "nat \<Rightarrow> stmt list \<Rightarrow> catalog \<Rightarrow> sql_error + catalog" where
  "run_times 0 script c = Inr c"
| "run_times (Suc n) script c =
     (case run_script script c of Inl e \<Rightarrow> Inl e | Inr c' \<Rightarrow> run_times n script c')"

text \<open>
  Modelled from the spec: the table-creating script \<^verbatim>\<open>1-create-tables.sql\<close> is not
  among the sources. By the spec it only creates the table, whose primary key is
  \<^verbatim>\<open>id\<close>; the catalog after it has no policy, function or trigger, and row security
  is off.
\<close>

definition fresh_catalog :: catalog where
  "fresh_catalog = \<lparr>rls_enabled = False, policies = [], routines = [], triggers = []\<rparr>"

text \<open>
  Modelled from the spec: the column defaults that the missing script
  \<^verbatim>\<open>1-create-tables.sql\<close> declares: \<^verbatim>\<open>avatar_url\<close> absent, \<^verbatim>\<open>created_at\<close> and
  \<^verbatim>\<open>updated_at\<close> the current time.
\<close>

definition default_avatar_url :: "js_string option" where
  "default_avatar_url = None"

definition default_created_at :: "timestamp \<Rightarrow> timestamp" where
  "default_created_at now = now"

definition default_updated_at :: "timestamp \<Rightarrow> timestamp" where
  "default_updated_at now = now"

text \<open>The catalog the application runs on: the scripts applied to the new table.\<close>

definition installed :: catalog where
  "installed = (case run_script setup_scripts fresh_catalog of Inr c \<Rightarrow> c | Inl _ \<Rightarrow> fresh_catalog)"

text \<open>What the scripts leave of an arbitrary catalog, and what they add to it.\<close>

definition other_triggers :: "catalog \<Rightarrow> trigger list" where
  "other_triggers c =
     filter (\<lambda>g. \<not> (tg_name g = ''update_profiles_updated_at'' \<and> tg_table g = Profiles))
       (filter (\<lambda>g. \<not> (tg_name g = ''on_auth_user_created'' \<and> tg_table g = AuthUsers)) (triggers c))"

definition other_routines :: "catalog \<Rightarrow> (string \<times> function_def) list" where
  "other_routines c =
     filter (\<lambda>x. fst x \<noteq> ''public.update_updated_at_column'')
       (filter (\<lambda>x. fst x \<noteq> ''public.handle_new_user'') (routines c))"

definition other_policies :: "catalog \<Rightarrow> policy list" where
  "other_policies c =
     filter (\<lambda>p. pol_name p \<noteq> ''Users can delete own profile.'')
      (filter (\<lambda>p. pol_name p \<noteq> ''Users can update own profile.'')
        (filter (\<lambda>p. pol_name p \<noteq> ''Users can insert their own profile.'')
          (filter (\<lambda>p. pol_name p \<noteq> ''Users can view own profile'') (policies c))))"

definition scripts_triggers :: "trigger list" where
  "scripts_triggers = [on_auth_user_created, update_profiles_updated_at]"

definition scripts_routines :: "(string \<times> function_def) list" where
  "scripts_routines =
     [(''public.handle_new_user'', handle_new_user_fn),
      (''public.update_updated_at_column'', update_updated_at_column_fn)]"

definition scripts_policies :: "policy list" where
  "scripts_policies = [view_policy, insert_policy, update_policy, delete_policy]"

section \<open>Row security\<close>

text \<open>
  \<^verbatim>\<open>auth.uid()\<close> is the id of the authenticated caller and NULL for an anonymous one.
  A comparison with NULL is NULL, and a policy admits a row only when its expression is
  true.
\<close>

fun eval_expr :: "expr \<Rightarrow> uuid option \<Rightarrow> profile \<Rightarrow> bool option" where
  "eval_expr AuthUidEqId auth_uid row =
     (case auth_uid of None \<Rightarrow> None | Some u \<Rightarrow> Some (u = p_id row))"

definition using_holds :: "policy \<Rightarrow> uuid option \<Rightarrow> profile \<Rightarrow> bool" where
  "using_holds p auth_uid row =
     (case pol_using p of None \<Rightarrow> True | Some e \<Rightarrow> eval_expr e auth_uid row = Some True)"

text \<open>A policy without \<^verbatim>\<open>with check\<close> checks new rows with its \<^verbatim>\<open>using\<close> expression.\<close>

definition check_holds :: "policy \<Rightarrow> uuid option \<Rightarrow> profile \<Rightarrow> bool" where
  "check_holds p auth_uid row =
     (case pol_with_check p of
        Some e \<Rightarrow> eval_expr e auth_uid row = Some True
      | None \<Rightarrow> using_holds p auth_uid row)"

definition policies_for :: "catalog \<Rightarrow> cmd \<Rightarrow> policy list" where
  "policies_for c k = filter (\<lambda>p. pol_cmd p = k) (policies c)"

text \<open>With row security enabled a row is hidden unless some policy of the command
  admits it; without any policy for the command nothing is admitted.\<close>

definition row_visible :: "catalog \<Rightarrow> cmd \<Rightarrow> uuid option \<Rightarrow> profile \<Rightarrow> bool" where
  "row_visible c k auth_uid row \<longleftrightarrow>
     \<not> rls_enabled c \<or> (\<exists>p\<in>set (policies_for c k). using_holds p auth_uid row)"

definition row_check :: "catalog \<Rightarrow> cmd \<Rightarrow> uuid option \<Rightarrow> profile \<Rightarrow> bool" where
  "row_check c k auth_uid row \<longleftrightarrow>
     \<not> rls_enabled c \<or> (\<exists>p\<in>set (policies_for c k). check_holds p auth_uid row)"

text \<open>Whether a caller may see, insert, change (old row into new row) or delete a row.\<close>

definition can_select :: "catalog \<Rightarrow> uuid option \<Rightarrow> profile \<Rightarrow> bool" where
  "can_select c auth_uid row = row_visible c ForSelect auth_uid row"

definition can_insert :: "catalog \<Rightarrow> uuid option \<Rightarrow> profile \<Rightarrow> bool" where
  "can_insert c auth_uid row = row_check c ForInsert auth_uid row"

definition can_update :: "catalog \<Rightarrow> uuid option \<Rightarrow> profile \<Rightarrow> profile \<Rightarrow> bool" where
  "can_update c auth_uid old new \<longleftrightarrow>
     row_visible c ForUpdate auth_uid old \<and> row_check c ForUpdate auth_uid new"

definition can_delete :: "catalog \<Rightarrow> uuid option \<Rightarrow> profile \<Rightarrow> bool" where
  "can_delete c auth_uid row = row_visible c ForDelete auth_uid row"

section \<open>Trigger functions\<close>

text \<open>
  \<^verbatim>\<open>public.handle_new_user()\<close>: inserts the profile of the new \<^verbatim>\<open>auth.users\<close> row;
  the three columns it does not name take the table's defaults. It is
  \<^verbatim>\<open>security definer\<close>, so the insert is not subject to the policies; the primary key
  is. An error is not caught in the function.
\<close>

definition new_profile :: "timestamp \<Rightarrow> auth_user \<Rightarrow> profile" where
  "new_profile now new =
     \<lparr>p_id = u_id new,
      p_email = u_email new,
      p_full_name = Some (coalesce (json_get_text (u_raw_user_meta_data new) (of_ascii ''full_name'')) []),
      p_avatar_url = default_avatar_url,
      p_created_at = default_created_at now,
      p_updated_at = default_updated_at now\<rparr>"

definition handle_new_user :: "timestamp \<Rightarrow> auth_user \<Rightarrow> db \<Rightarrow> sql_error + db" where
  "handle_new_user now new d =
     (if u_id new \<in> set (map p_id (profiles d)) then Inl UniqueViolation
      else Inr (d\<lparr>profiles := profiles d @ [new_profile now new]\<rparr>))"

text \<open>\<^verbatim>\<open>public.update_updated_at_column()\<close>; \<open>now\<close> is the UTC time of the transaction.\<close>

definition update_updated_at_column :: "timestamp \<Rightarrow> profile \<Rightarrow> profile" where
  "update_updated_at_column now new = new\<lparr>p_updated_at := now\<rparr>"

text \<open>
  The row triggers of a catalog. The scripts create an after-insert trigger on
  \<^verbatim>\<open>auth.users\<close> and a before-update trigger on \<^verbatim>\<open>profiles\<close>; these are the two kinds
  that are run. The result of an after trigger is ignored; a function that reads a column
  its row does not have fails.
\<close>

fun fire_after_insert_user :: "catalog \<Rightarrow> timestamp \<Rightarrow> trigger list \<Rightarrow> auth_user \<Rightarrow> db \<Rightarrow> sql_error + db" where
  "fire_after_insert_user c now [] new d = Inr d"
| "fire_after_insert_user c now (g # gs) new d =
     (if tg_table g = AuthUsers \<and> tg_timing g = After \<and> tg_event g = OnInsert then
        (case map_of (routines c) (tg_function g) of
           None \<Rightarrow> Inl UndefinedFunction
         | Some f \<Rightarrow>
             (case fn_body f of
                InsertProfileFromNew \<Rightarrow>
                  (case handle_new_user now new d of
                     Inl e \<Rightarrow> Inl e
                   | Inr d' \<Rightarrow> fire_after_insert_user c now gs new d')
              | SetNewUpdatedAt \<Rightarrow> fire_after_insert_user c now gs new d))
      else fire_after_insert_user c now gs new d)"

fun fire_before_update :: "catalog \<Rightarrow> timestamp \<Rightarrow> trigger list \<Rightarrow> profile \<Rightarrow> sql_error + profile" where
  "fire_before_update c now [] new = Inr new"
| "fire_before_update c now (g # gs) new =
     (if tg_table g = Profiles \<and> tg_timing g = Before \<and> tg_event g = OnUpdate then
        (case map_of (routines c) (tg_function g) of
           None \<Rightarrow> Inl UndefinedFunction
         | Some f \<Rightarrow>
             (case fn_body f of
                SetNewUpdatedAt \<Rightarrow> fire_before_update c now gs (update_updated_at_column now new)
              | InsertProfileFromNew \<Rightarrow> Inl UndefinedColumn))
      else fire_before_update c now gs new)"

section \<open>Statements on the tables\<close>

text \<open>Creation of an identity: the insert into \<^verbatim>\<open>auth.users\<close> with its row triggers, one
  statement that succeeds or fails as a whole.\<close>

definition insert_auth_user :: "catalog \<Rightarrow> timestamp \<Rightarrow> auth_user \<Rightarrow> db \<Rightarrow> sql_error + db" where
  "insert_auth_user c now new d =
     (if u_id new \<in> set (map u_id (users d)) then Inl UniqueViolation
      else fire_after_insert_user c now (triggers c) new (d\<lparr>users := users d @ [new]\<rparr>))"

text \<open>The outcome of a transaction: the new state, or the old one after an error.\<close>

definition commit :: "db \<Rightarrow> sql_error + db \<Rightarrow> db" where
  "commit d r = (case r of Inl _ \<Rightarrow> d | Inr d' \<Rightarrow> d')"

record query =
  q_where :: "profile \<Rightarrow> bool"
  q_order :: "(profile \<Rightarrow> nat) option"
  q_limit :: "nat option"

definition where_id_eq :: "uuid \<Rightarrow> profile \<Rightarrow> bool" where
  "where_id_eq i row \<longleftrightarrow> p_id row = i"

definition where_true :: "profile \<Rightarrow> bool" where
  "where_true row \<longleftrightarrow> True"

definition sql_select :: "catalog \<Rightarrow> uuid option \<Rightarrow> query \<Rightarrow> db \<Rightarrow> profile list" where
  "sql_select c auth_uid q d =
     (let rows = filter (\<lambda>r. row_visible c ForSelect auth_uid r \<and> q_where q r) (profiles d);
          ordered = (case q_order q of None \<Rightarrow> rows | Some k \<Rightarrow> sort_key k rows)
      in case q_limit q of None \<Rightarrow> ordered | Some n \<Rightarrow> take n ordered)"

text \<open>\<^verbatim>\<open>insert\<close> of one or several rows through the API: the policy check comes before
  the primary key.\<close>

fun sql_insert :: "catalog \<Rightarrow> uuid option \<Rightarrow> profile list \<Rightarrow> db \<Rightarrow> sql_error + db" where
  "sql_insert c auth_uid [] d = Inr d"
| "sql_insert c auth_uid (row # rows) d =
     (if \<not> row_check c ForInsert auth_uid row then Inl InsufficientPrivilege
      else if p_id row \<in> set (map p_id (profiles d)) then Inl UniqueViolation
      else sql_insert c auth_uid rows (d\<lparr>profiles := profiles d @ [row]\<rparr>))"

text \<open>The \<^verbatim>\<open>set\<close> list of an \<^verbatim>\<open>update\<close>: for each column, the value assigned if any.\<close>

record set_clause =
  set_id :: "uuid option"
  set_email :: "js_string option"
  set_full_name :: "js_string option option"
  set_avatar_url :: "js_string option option"
  set_created_at :: "timestamp option"
  set_updated_at :: "timestamp option"

definition set_nothing :: set_clause where
  "set_nothing = \<lparr>set_id = None, set_email = None, set_full_name = None,
                  set_avatar_url = None, set_created_at = None, set_updated_at = None\<rparr>"

definition apply_set :: "set_clause \<Rightarrow> profile \<Rightarrow> profile" where
  "apply_set s r =
     \<lparr>p_id = coalesce (set_id s) (p_id r),
      p_email = coalesce (set_email s) (p_email r),
      p_full_name = coalesce (set_full_name s) (p_full_name r),
      p_avatar_url = coalesce (set_avatar_url s) (p_avatar_url r),
      p_created_at = coalesce (set_created_at s) (p_created_at r),
      p_updated_at = coalesce (set_updated_at s) (p_updated_at r)\<rparr>"

text \<open>
  \<^verbatim>\<open>update\<close> through the API, row by row: a row is a target when the policy's
  \<^verbatim>\<open>using\<close> admits it and the \<^verbatim>\<open>where\<close> clause holds; the before-update triggers
  run on the assigned row, and the result must pass the policy's check. The result is the
  list of all rows, each with a flag that tells whether it was updated.
\<close>

fun update_rows ::
  "catalog \<Rightarrow> uuid option \<Rightarrow> timestamp \<Rightarrow> (profile \<Rightarrow> bool) \<Rightarrow> set_clause \<Rightarrow> profile list
     \<Rightarrow> sql_error + (bool \<times> profile) list" where
  "update_rows c auth_uid now wh s [] = Inr []"
| "update_rows c auth_uid now wh s (r # rs) =
     (if row_visible c ForUpdate auth_uid r \<and> wh r then
        (case fire_before_update c now (triggers c) (apply_set s r) of
           Inl e \<Rightarrow> Inl e
         | Inr new \<Rightarrow>
             if \<not> row_check c ForUpdate auth_uid new then Inl InsufficientPrivilege
             else (case update_rows c auth_uid now wh s rs of
                     Inl e \<Rightarrow> Inl e
                   | Inr rs' \<Rightarrow> Inr ((True, new) # rs')))
      else (case update_rows c auth_uid now wh s rs of
              Inl e \<Rightarrow> Inl e
            | Inr rs' \<Rightarrow> Inr ((False, r) # rs')))"

text \<open>The statement returns the new state and the updated rows (\<^verbatim>\<open>returning *\<close>).
  The primary key is checked when the statement changed an id.\<close>

definition sql_update ::
  "catalog \<Rightarrow> uuid option \<Rightarrow> timestamp \<Rightarrow> (profile \<Rightarrow> bool) \<Rightarrow> set_clause \<Rightarrow> db
     \<Rightarrow> sql_error + (db \<times> profile list)" where
  "sql_update c auth_uid now wh s d =
     (case update_rows c auth_uid now wh s (profiles d) of
        Inl e \<Rightarrow> Inl e
      | Inr rs \<Rightarrow>
          if map (p_id \<circ> snd) rs = map p_id (profiles d) \<or> distinct (map (p_id \<circ> snd) rs)
          then Inr (d\<lparr>profiles := map snd rs\<rparr>, map snd (filter fst rs))
          else Inl UniqueViolation)"

definition sql_delete :: "catalog \<Rightarrow> uuid option \<Rightarrow> (profile \<Rightarrow> bool) \<Rightarrow> db \<Rightarrow> db \<times> profile list" where
  "sql_delete c auth_uid wh d =
     (d\<lparr>profiles := filter (\<lambda>r. \<not> (row_visible c ForDelete auth_uid r \<and> wh r)) (profiles d)\<rparr>,
      filter (\<lambda>r. row_visible c ForDelete auth_uid r \<and> wh r) (profiles d))"

section \<open>Profile access functions\<close>

datatype api_error = NotAuthenticated | PGRST116 | SqlError sql_error

text \<open>\<^verbatim>\<open>.single()\<close> of the API client: the row when there is exactly one, the error
  PGRST116 otherwise.\<close>

definition single :: "profile list \<Rightarrow> api_error + profile" where
  "single rows = (case rows of [r] \<Rightarrow> Inr r | _ \<Rightarrow> Inl PGRST116)"

text \<open>
  Modelled from the spec: \<^verbatim>\<open>lib/profile-server.ts\<close> is not among the sources, only its
  tests are. \<^verbatim>\<open>fetchProfile(identityId)\<close>, named \<^verbatim>\<open>getProfile\<close> in the tests, selects
  the row with that id as the caller (\<^verbatim>\<open>select('*').eq('id', userId).single()\<close>) and
  returns it, or null (\<open>None\<close>) after logging when the API reports an error.
  \<open>getProfile_response\<close> is the API's answer before it is turned into null.
\<close>

definition getProfile_response :: "catalog \<Rightarrow> uuid option \<Rightarrow> uuid \<Rightarrow> db \<Rightarrow> api_error + profile" where
  "getProfile_response c session userId d =
     single (sql_select c session \<lparr>q_where = where_id_eq userId, q_order = None, q_limit = None\<rparr> d)"

definition getProfile :: "catalog \<Rightarrow> uuid option \<Rightarrow> uuid \<Rightarrow> db \<Rightarrow> profile option" where
  "getProfile c session userId d =
     (case getProfile_response c session userId d of Inl _ \<Rightarrow> None | Inr data \<Rightarrow> Some data)"

text \<open>The fields a caller of \<^verbatim>\<open>updateProfile\<close> may supply; each can be left out.\<close>

record profile_updates =
  upd_full_name :: "js_string option"
  upd_avatar_url :: "js_string option"
  upd_updated_at :: "timestamp option"

definition set_of_updates :: "profile_updates \<Rightarrow> set_clause" where
  "set_of_updates u =
     \<lparr>set_id = None, set_email = None,
      set_full_name = map_option Some (upd_full_name u),
      set_avatar_url = map_option Some (upd_avatar_url u),
      set_created_at = None,
      set_updated_at = upd_updated_at u\<rparr>"

text \<open>
  Modelled from the spec: \<^verbatim>\<open>lib/profile-client.ts\<close> is not among the sources, only its
  tests and its caller are. \<^verbatim>\<open>updateProfile(identityId, partialFields)\<close> fails with
  "User not authenticated" without a session; otherwise it updates, as the caller, the
  row with that id (\<^verbatim>\<open>update(updates).eq('id', id).select().single()\<close>) and returns
  the updated row or the API's error. In the tests the id is the session's own.
\<close>

definition updateProfile ::
  "catalog \<Rightarrow> uuid option \<Rightarrow> timestamp \<Rightarrow> uuid \<Rightarrow> profile_updates \<Rightarrow> db
     \<Rightarrow> db \<times> (api_error + profile)" where
  "updateProfile c session now identityId updates d =
     (case session of
        None \<Rightarrow> (d, Inl NotAuthenticated)
      | Some _ \<Rightarrow>
          (case sql_update c session now (where_id_eq identityId) (set_of_updates updates) d of
             Inl e \<Rightarrow> (d, Inl (SqlError e))
           | Inr (d', rows) \<Rightarrow> (d', single rows)))"

text \<open>\<^verbatim>\<open>handleSubmit\<close> of the edit form, without its effects on the page: the sanitized
  form data is what \<^verbatim>\<open>updateProfile\<close> receives, for the signed-in user.\<close>

definition updates_of_form :: "form_data \<Rightarrow> profile_updates" where
  "updates_of_form data =
     \<lparr>upd_full_name = Some (fd_full_name data), upd_avatar_url = Some (fd_avatar_url data),
      upd_updated_at = None\<rparr>"

definition handleSubmit ::
  "catalog \<Rightarrow> uuid option \<Rightarrow> timestamp \<Rightarrow> form_data \<Rightarrow> db \<Rightarrow> db \<times> (api_error + profile)" where
  "handleSubmit c session now formData d =
     (case session of
        None \<Rightarrow> (d, Inl NotAuthenticated)
      | Some uid \<Rightarrow> updateProfile c session now uid (updates_of_form (sanitizeProfileData formData)) d)"

text \<open>What \<^verbatim>\<open>updateProfile\<close> may change of a row: the two editable columns, when
  supplied, and the modification time.\<close>

definition stored_update :: "timestamp \<Rightarrow> profile_updates \<Rightarrow> profile \<Rightarrow> profile" where
  "stored_update now u r =
     r\<lparr>p_full_name := (case upd_full_name u of None \<Rightarrow> p_full_name r | Some v \<Rightarrow> Some v),
       p_avatar_url := (case upd_avatar_url u of None \<Rightarrow> p_avatar_url r | Some v \<Rightarrow> Some v),
       p_updated_at := now\<rparr>"

section \<open>Sequences of operations\<close>

text \<open>The operations of the application, and the statements a caller can send to the
  table directly through the API.\<close>

datatype op =
    CreateIdentity auth_user
  | FetchProfile "uuid option" uuid
  | UpdateProfile "uuid option" uuid profile_updates
  | SqlSelect "uuid option" query
  | SqlInsert "uuid option" "profile list"
  | SqlUpdate "uuid option" "profile \<Rightarrow> bool" set_clause
  | SqlDelete "uuid option" "profile \<Rightarrow> bool"

text \<open>One operation at server time \<open>now\<close>, the time of its transaction.\<close>

fun step :: "catalog \<Rightarrow> timestamp \<Rightarrow> op \<Rightarrow> db \<Rightarrow> db" where
  "step c now (CreateIdentity u) d = commit d (insert_auth_user c now u d)"
| "step c now (FetchProfile session i) d = d"
| "step c now (UpdateProfile session i u) d = fst (updateProfile c session now i u d)"
| "step c now (SqlSelect session q) d = d"
| "step c now (SqlInsert session rows) d = commit d (sql_insert c session rows d)"
| "step c now (SqlUpdate session wh s) d =
     (case sql_update c session now wh s d of Inl _ \<Rightarrow> d | Inr (d', _) \<Rightarrow> d')"
| "step c now (SqlDelete session wh) d = fst (sql_delete c session wh d)"






definition every_identity_has_profile :: "db \<Rightarrow> bool" where
  "every_identity_has_profile d \<longleftrightarrow> (\<forall>u\<in>set (users d). u_id u \<in> set (map p_id (profiles d)))"

text \<open>Concrete rows for evaluation: the identity of the spec's scenario.\<close>

definition ann :: auth_user where
  "ann = \<lparr>u_id = 1, u_email = of_ascii ''a@x.com'',
          u_raw_user_meta_data = Some (JObject [(of_ascii ''full_name'', JString (of_ascii ''Ann''))])\<rparr>"

definition ann_profile :: "timestamp \<Rightarrow> timestamp \<Rightarrow> profile" where
  "ann_profile created updated =
     \<lparr>p_id = 1, p_email = of_ascii ''a@x.com'', p_full_name = Some (of_ascii ''Ann''),
      p_avatar_url = None, p_created_at = created, p_updated_at = updated\<rparr>"


section \<open>Properties of profile-utils\<close>

lemma trim_empty_iff: "trim s = [] \<longleftrightarrow> (\<forall>c\<in>set s. isWhiteSpace c)"
proof -
  have "(\<forall>x\<in>set (dropWhile isWhiteSpace s). isWhiteSpace x) \<longleftrightarrow> (\<forall>x\<in>set s. isWhiteSpace x)"
    by (induction s) auto
  then show ?thesis
    by (simp add: trim_def)
qed

lemma join_char_at0: "join_empty (map char_at0 ws) = map hd (filter (\<lambda>w. w \<noteq> []) ws)"
  by (induction ws) (auto simp: join_empty_def char_at0_def split: list.splits)

text \<open>
  C9. For a name that is not whitespace-only, \<open>generateInitials\<close> returns the upper-cased
  concatenation of the first code unit of every non-empty piece between single spaces of
  the trimmed name. For an empty or whitespace-only name it returns the upper-cased first
  code unit of the fallback e-mail when that is non-empty, and throws a TypeError when
  the fallback e-mail is empty.
\<close>

theorem generateInitials_spec:
  "(\<not> (\<forall>c\<in>set fullName. isWhiteSpace c) \<longrightarrow>
      generateInitials toUpperCase fullName fallbackEmail =
        Inr (toUpperCase (map hd (filter (\<lambda>w. w \<noteq> []) (split_space (trim fullName)))))) \<and>
   ((\<forall>c\<in>set fullName. isWhiteSpace c) \<and> fallbackEmail \<noteq> [] \<longrightarrow>
      generateInitials toUpperCase fullName fallbackEmail = Inr (toUpperCase [hd fallbackEmail])) \<and>
   ((\<forall>c\<in>set fullName. isWhiteSpace c) \<and> fallbackEmail = [] \<longrightarrow>
      generateInitials toUpperCase fullName fallbackEmail = Inl TypeError)"
  by (cases fallbackEmail)
     (simp_all add: generateInitials_def Let_def trim_empty_iff join_char_at0 char_at0_def)

theorem generateInitials_spec_witness:
  "generateInitials ascii_toUpperCase (of_ascii ''John   Doe'') (of_ascii ''test@example.com'')
     = Inr (of_ascii ''JD'') \<and>
   generateInitials ascii_toUpperCase (of_ascii ''   '') (of_ascii ''test@example.com'')
     = Inr (of_ascii ''T'') \<and>
   generateInitials ascii_toUpperCase (of_ascii ''   '') [] = Inl TypeError"
  using generateInitials_spec [of "of_ascii ''John   Doe''" ascii_toUpperCase "of_ascii ''test@example.com''"]
        generateInitials_spec [of "of_ascii ''   ''" ascii_toUpperCase "of_ascii ''test@example.com''"]
        generateInitials_spec [of "of_ascii ''   ''" ascii_toUpperCase "[]"]
  by (simp add: of_ascii_def trim_def isWhiteSpace_def SPACE_def ascii_toUpperCase_def)

text \<open>
  C10. \<open>isValidAvatarUrl\<close> never throws. It returns true on every empty or
  whitespace-only string; on every other string it returns true exactly when the string
  parses as a URL whose protocol is \<^verbatim>\<open>http:\<close> or \<^verbatim>\<open>https:\<close> and whose hostname is
  non-empty, and in particular false when the string does not parse.
\<close>

theorem isValidAvatarUrl_spec:
  "((\<forall>c\<in>set url. isWhiteSpace c) \<longrightarrow> isValidAvatarUrl URL url = Inr True) \<and>
   (\<not> (\<forall>c\<in>set url. isWhiteSpace c) \<longrightarrow>
      isValidAvatarUrl URL url =
        Inr (\<exists>p. URL url = Inr p \<and>
                 (protocol p = of_ascii ''http:'' \<or> protocol p = of_ascii ''https:'') \<and>
                 hostname p \<noteq> [])) \<and>
   (\<not> (\<forall>c\<in>set url. isWhiteSpace c) \<and> URL url = Inl e \<longrightarrow>
      isValidAvatarUrl URL url = Inr False)"
  by (cases "URL url") (simp_all add: isValidAvatarUrl_def try_catch_def trim_empty_iff)

theorem isValidAvatarUrl_spec_witness:
  "isValidAvatarUrl URL_on_tests (of_ascii ''   '') = Inr True \<and>
   isValidAvatarUrl URL_on_tests (of_ascii ''https://example.com/avatar.jpg'') = Inr True \<and>
   isValidAvatarUrl URL_on_tests (of_ascii ''ftp://example.com/avatar.jpg'') = Inr False \<and>
   isValidAvatarUrl URL_on_tests (of_ascii ''not-a-url'') = Inr False"
  using isValidAvatarUrl_spec [of "of_ascii ''   ''" URL_on_tests TypeError]
        isValidAvatarUrl_spec [of "of_ascii ''https://example.com/avatar.jpg''" URL_on_tests TypeError]
        isValidAvatarUrl_spec [of "of_ascii ''ftp://example.com/avatar.jpg''" URL_on_tests TypeError]
        isValidAvatarUrl_spec [of "of_ascii ''not-a-url''" URL_on_tests TypeError]
  by (simp add: of_ascii_def isWhiteSpace_def URL_on_tests_def)

section \<open>Properties of the setup scripts\<close>

lemma run_script_append:
  "run_script (a @ b) c = (case run_script a c of Inl e \<Rightarrow> Inl e | Inr c' \<Rightarrow> run_script b c')"
  by (induction a arbitrary: c) (auto split: sum.splits)

lemma replace_function_fresh:
  "f \<notin> fst ` set xs \<Longrightarrow> replace_function f d xs = xs @ [(f, d)]"
  by (induction xs) auto

lemma drop_triggers_step:
  "run_script [DropTriggerIfExists ''on_auth_user_created'' AuthUsers,
               DropTriggerIfExists ''update_profiles_updated_at'' Profiles] c
     = Inr (c\<lparr>triggers := other_triggers c\<rparr>)"
  by (simp add: other_triggers_def)

lemma drop_functions_step:
  "run_script [DropFunctionIfExists ''public.handle_new_user'',
               DropFunctionIfExists ''public.update_updated_at_column''] c
     = (if \<exists>g\<in>set (triggers c). tg_function g = ''public.handle_new_user'' \<or>
                                  tg_function g = ''public.update_updated_at_column''
        then Inl DependentObjectsStillExist
        else Inr (c\<lparr>routines := other_routines c\<rparr>))"
  by (simp add: other_routines_def)

lemma create_functions_step:
  "run_script [CreateOrReplaceFunction ''public.handle_new_user'' handle_new_user_fn,
               CreateOrReplaceFunction ''public.update_updated_at_column'' update_updated_at_column_fn]
              (c\<lparr>routines := other_routines c0\<rparr>)
     = Inr (c\<lparr>routines := other_routines c0 @ scripts_routines\<rparr>)"
proof -
  have r1: "replace_function ''public.handle_new_user'' handle_new_user_fn (other_routines c0)
          = other_routines c0 @ [(''public.handle_new_user'', handle_new_user_fn)]"
    by (rule replace_function_fresh) (auto simp: other_routines_def)
  have r2: "replace_function ''public.update_updated_at_column'' update_updated_at_column_fn
             (other_routines c0 @ [(''public.handle_new_user'', handle_new_user_fn)])
          = (other_routines c0 @ [(''public.handle_new_user'', handle_new_user_fn)])
             @ [(''public.update_updated_at_column'', update_updated_at_column_fn)]"
    by (rule replace_function_fresh) (auto simp: other_routines_def)
  show ?thesis
    by (simp add: r1 r2 scripts_routines_def)
qed


lemma create_triggers_step:
  assumes "triggers c = other_triggers c0" "routines c = rs @ scripts_routines"
  shows "run_script [CreateTrigger on_auth_user_created, CreateTrigger update_profiles_updated_at] c
     = Inr (c\<lparr>triggers := other_triggers c0 @ scripts_triggers\<rparr>)"
proof -
  have m1: "map_of (rs @ scripts_routines) ''public.handle_new_user'' \<noteq> None"
   and m2: "map_of (rs @ scripts_routines) ''public.update_updated_at_column'' \<noteq> None"
    by (simp_all add: scripts_routines_def map_add_def split: option.split)
  have t1: "\<forall>h\<in>set (other_triggers c0). \<not> (tg_name h = ''on_auth_user_created'' \<and> tg_table h = AuthUsers)"
    and t2: "\<forall>h\<in>set (other_triggers c0). \<not> (tg_name h = ''update_profiles_updated_at'' \<and> tg_table h = Profiles)"
    by (auto simp: other_triggers_def)
  have e1: "exec_stmt (CreateTrigger on_auth_user_created) c
          = Inr (c\<lparr>triggers := other_triggers c0 @ [on_auth_user_created]\<rparr>)"
    using t1 m1 assms by (simp add: on_auth_user_created_def)
  have e2: "exec_stmt (CreateTrigger update_profiles_updated_at)
              (c\<lparr>triggers := other_triggers c0 @ [on_auth_user_created]\<rparr>)
          = Inr (c\<lparr>triggers := other_triggers c0 @ scripts_triggers\<rparr>)"
    using t2 m2 assms
    by (simp add: on_auth_user_created_def update_profiles_updated_at_def scripts_triggers_def)
  show ?thesis
    by (simp only: run_script.simps e1 e2 sum.case)
qed

lemma run_add_functions_sql:
  "run_script add_functions_sql c =
     (if \<exists>g\<in>set (other_triggers c).
           tg_function g = ''public.handle_new_user'' \<or>
           tg_function g = ''public.update_updated_at_column''
      then Inl DependentObjectsStillExist
      else Inr (c\<lparr>routines := other_routines c @ scripts_routines,
                 triggers := other_triggers c @ scripts_triggers\<rparr>))"
proof -
  have split: "add_functions_sql =
     [DropTriggerIfExists ''on_auth_user_created'' AuthUsers,
      DropTriggerIfExists ''update_profiles_updated_at'' Profiles] @
     [DropFunctionIfExists ''public.handle_new_user'',
      DropFunctionIfExists ''public.update_updated_at_column''] @
     [CreateOrReplaceFunction ''public.handle_new_user'' handle_new_user_fn,
      CreateOrReplaceFunction ''public.update_updated_at_column'' update_updated_at_column_fn] @
     [CreateTrigger on_auth_user_created, CreateTrigger update_profiles_updated_at]"
    by (simp add: add_functions_sql_def)
  have or: "other_routines (c\<lparr>triggers := other_triggers c\<rparr>) = other_routines c"
    by (simp add: other_routines_def)
  have ct: "run_script [CreateTrigger on_auth_user_created, CreateTrigger update_profiles_updated_at]
              (c\<lparr>triggers := other_triggers c, routines := other_routines c @ scripts_routines\<rparr>)
          = Inr (c\<lparr>triggers := other_triggers c, routines := other_routines c @ scripts_routines\<rparr>
                  \<lparr>triggers := other_triggers c @ scripts_triggers\<rparr>)"
    by (rule create_triggers_step) simp_all
  have cf: "run_script [CreateOrReplaceFunction ''public.handle_new_user'' handle_new_user_fn,
               CreateOrReplaceFunction ''public.update_updated_at_column'' update_updated_at_column_fn]
              (c\<lparr>triggers := other_triggers c\<rparr>\<lparr>routines := other_routines c\<rparr>)
     = Inr (c\<lparr>triggers := other_triggers c\<rparr>\<lparr>routines := other_routines c @ scripts_routines\<rparr>)"
    by (rule create_functions_step)
  show ?thesis
    unfolding split run_script_append drop_triggers_step drop_functions_step
    using cf ct by (simp add: or)
qed


lemma run_enable_rls_policies_sql:
  "run_script enable_rls_policies_sql c =
     Inr (c\<lparr>rls_enabled := True, policies := other_policies c @ scripts_policies\<rparr>)"
  by (simp add: enable_rls_policies_sql_def other_policies_def scripts_policies_def
        view_policy_def insert_policy_def update_policy_def delete_policy_def)

lemma run_setup_scripts:
  "run_script setup_scripts c =
     (if \<exists>g\<in>set (other_triggers c).
           tg_function g = ''public.handle_new_user'' \<or>
           tg_function g = ''public.update_updated_at_column''
      then Inl DependentObjectsStillExist
      else Inr \<lparr>rls_enabled = True,
                policies = other_policies c @ scripts_policies,
                routines = other_routines c @ scripts_routines,
                triggers = other_triggers c @ scripts_triggers\<rparr>)"
  by (simp add: setup_scripts_def run_script_append run_add_functions_sql
        run_enable_rls_policies_sql other_policies_def)

lemma other_triggers_again:
  "triggers c1 = other_triggers c @ scripts_triggers \<Longrightarrow> other_triggers c1 = other_triggers c"
  by (simp add: other_triggers_def scripts_triggers_def on_auth_user_created_def
        update_profiles_updated_at_def; intro filter_cong refl; blast)

lemma other_routines_again:
  "routines c1 = other_routines c @ scripts_routines \<Longrightarrow> other_routines c1 = other_routines c"
  by (simp add: other_routines_def scripts_routines_def; intro filter_cong refl; blast)

lemma other_policies_again:
  "policies c1 = other_policies c @ scripts_policies \<Longrightarrow> other_policies c1 = other_policies c"
  by (simp add: other_policies_def scripts_policies_def view_policy_def insert_policy_def
        update_policy_def delete_policy_def; intro filter_cong refl; blast)

lemma setup_scripts_fixpoint:
  assumes "run_script setup_scripts c = Inr c1"
  shows "run_script setup_scripts c1 = Inr c1"
proof -
  let ?dep = "\<lambda>c. \<exists>g\<in>set (other_triggers c).
           tg_function g = ''public.handle_new_user'' \<or>
           tg_function g = ''public.update_updated_at_column''"
  from assms have nd: "\<not> ?dep c"
    by (simp add: run_setup_scripts split: if_splits)
  with assms have c1: "c1 = \<lparr>rls_enabled = True,
                policies = other_policies c @ scripts_policies,
                routines = other_routines c @ scripts_routines,
                triggers = other_triggers c @ scripts_triggers\<rparr>"
    by (simp add: run_setup_scripts)
  have t: "other_triggers c1 = other_triggers c"
    by (rule other_triggers_again) (simp add: c1)
  have r: "other_routines c1 = other_routines c"
    by (rule other_routines_again) (simp add: c1)
  have p: "other_policies c1 = other_policies c"
    by (rule other_policies_again) (simp add: c1)
  show ?thesis
    using nd by (simp add: run_setup_scripts [of c1] t r p) (simp add: c1)
qed

lemma run_times_fixpoint:
  "run_script script c1 = Inr c1 \<Longrightarrow> run_times n script c1 = Inr c1"
  by (induction n) simp_all

lemma installed_eq:
  "run_script setup_scripts fresh_catalog = Inr installed"
  "installed = \<lparr>rls_enabled = True, policies = scripts_policies,
                routines = scripts_routines, triggers = scripts_triggers\<rparr>"
  by (simp_all add: installed_def run_setup_scripts fresh_catalog_def other_triggers_def
        other_policies_def other_routines_def)

lemma installed_fields:
  "rls_enabled installed" "policies installed = scripts_policies"
  "routines installed = scripts_routines" "triggers installed = scripts_triggers"
  by (simp_all add: installed_eq(2))

lemma scripts_policies_once:
  "filter (\<lambda>p. pol_name p \<in> set (map pol_name scripts_policies)) (other_policies c @ scripts_policies)
     = scripts_policies"
proof -
  have "filter (\<lambda>p. pol_name p \<in> set (map pol_name scripts_policies)) (other_policies c) = []"
    by (auto simp: filter_empty_conv other_policies_def scripts_policies_def view_policy_def
          insert_policy_def update_policy_def delete_policy_def)
  moreover have "filter (\<lambda>p. pol_name p \<in> set (map pol_name scripts_policies)) scripts_policies
      = scripts_policies"
    by (simp add: filter_id_conv)
  ultimately show ?thesis by simp
qed

lemma scripts_triggers_once:
  "filter (\<lambda>g. (tg_name g, tg_table g) \<in> set (map (\<lambda>g. (tg_name g, tg_table g)) scripts_triggers))
      (other_triggers c @ scripts_triggers)
     = scripts_triggers"
proof -
  have "filter (\<lambda>g. (tg_name g, tg_table g) \<in> set (map (\<lambda>g. (tg_name g, tg_table g)) scripts_triggers))
          (other_triggers c) = []"
    by (auto simp: filter_empty_conv other_triggers_def scripts_triggers_def
          on_auth_user_created_def update_profiles_updated_at_def)
  moreover have "filter (\<lambda>g. (tg_name g, tg_table g) \<in> set (map (\<lambda>g. (tg_name g, tg_table g)) scripts_triggers))
          scripts_triggers = scripts_triggers"
    by (simp add: filter_id_conv)
  ultimately show ?thesis by simp
qed

text \<open>
  C8. Whenever one run of the setup scripts (the functions-and-triggers script followed by
  the policies script) succeeds on a catalog, running them any number of times \<open>n \<ge> 1\<close>
  succeeds and ends in the same catalog as the single run: the same row-security flag,
  policies, functions and triggers. In that catalog the policies and the triggers with
  the names the scripts use are exactly the scripts' own, each once.
\<close>

theorem setup_scripts_idempotent:
  assumes "run_script setup_scripts c = Inr c1" and "1 \<le> n"
  shows "run_times n setup_scripts c = Inr c1 \<and>
         filter (\<lambda>p. pol_name p \<in> set (map pol_name scripts_policies)) (policies c1)
           = scripts_policies \<and>
         filter (\<lambda>g. (tg_name g, tg_table g) \<in> set (map (\<lambda>g. (tg_name g, tg_table g)) scripts_triggers))
            (triggers c1)
           = scripts_triggers"
proof -
  from \<open>1 \<le> n\<close> obtain m where n: "n = Suc m"
    by (cases n) simp_all
  have "run_times m setup_scripts c1 = Inr c1"
    using assms(1) by (intro run_times_fixpoint setup_scripts_fixpoint)
  with assms(1) have "run_times n setup_scripts c = Inr c1"
    by (simp add: n)
  moreover from assms(1) have "policies c1 = other_policies c @ scripts_policies"
      and "triggers c1 = other_triggers c @ scripts_triggers"
    by (auto simp: run_setup_scripts split: if_splits)
  ultimately show ?thesis
    by (simp only: scripts_policies_once scripts_triggers_once simp_thms)
qed

theorem setup_scripts_idempotent_witness:
  "run_script setup_scripts fresh_catalog = Inr installed \<and> (1::nat) \<le> 3 \<and>
   run_times 3 setup_scripts fresh_catalog = Inr installed \<and>
   policies installed = [view_policy, insert_policy, update_policy, delete_policy] \<and>
   triggers installed = [on_auth_user_created, update_profiles_updated_at]"
  using setup_scripts_idempotent [OF installed_eq(1), of 3] installed_eq(1)
  by (simp add: installed_fields scripts_policies_def scripts_triggers_def)

section \<open>The installed catalog\<close>

lemma row_visible_installed:
  "k \<noteq> ForInsert \<Longrightarrow> row_visible installed k caller row \<longleftrightarrow> caller = Some (p_id row)"
  by (cases k; cases caller)
     (auto simp: row_visible_def policies_for_def installed_fields scripts_policies_def
        view_policy_def insert_policy_def update_policy_def delete_policy_def using_holds_def)

lemma row_check_installed:
  "row_check installed k caller row \<longleftrightarrow> caller = Some (p_id row)"
  by (cases k; cases caller)
     (auto simp: row_check_def policies_for_def installed_fields scripts_policies_def
        view_policy_def insert_policy_def update_policy_def delete_policy_def using_holds_def
        check_holds_def)

lemma fire_before_update_installed:
  "fire_before_update installed now (triggers installed) new = Inr (update_updated_at_column now new)"
  by (simp add: installed_fields scripts_triggers_def scripts_routines_def
        on_auth_user_created_def update_profiles_updated_at_def update_updated_at_column_fn_def)

lemma fire_after_insert_user_installed:
  "fire_after_insert_user installed now (triggers installed) new d = handle_new_user now new d"
  by (simp add: installed_fields scripts_triggers_def scripts_routines_def
        on_auth_user_created_def update_profiles_updated_at_def handle_new_user_fn_def
        split: sum.splits)


lemma sql_select_anonymous: "sql_select installed None q d = []"
  by (simp add: sql_select_def row_visible_installed split: option.splits)

lemma update_rows_installed:
  "update_rows installed caller now wh s rows =
     (if \<exists>r\<in>set rows. caller = Some (p_id r) \<and> wh r \<and> p_id (apply_set s r) \<noteq> p_id r
      then Inl InsufficientPrivilege
      else Inr (map (\<lambda>r. if caller = Some (p_id r) \<and> wh r
                          then (True, update_updated_at_column now (apply_set s r))
                          else (False, r)) rows))"
proof (induction rows)
  case Nil
  show ?case by simp
next
  case (Cons r rs)
  have id_upd: "p_id (update_updated_at_column now x) = p_id x" for x
    by (simp add: update_updated_at_column_def)
  show ?case
  proof (cases "caller = Some (p_id r) \<and> wh r")
    case True
    then have step: "update_rows installed caller now wh s (r # rs) =
        (if p_id (apply_set s r) \<noteq> p_id r then Inl InsufficientPrivilege
         else (case update_rows installed caller now wh s rs of
                 Inl e \<Rightarrow> Inl e
               | Inr rs' \<Rightarrow> Inr ((True, update_updated_at_column now (apply_set s r)) # rs')))"
      by (simp add: row_visible_installed row_check_installed fire_before_update_installed id_upd) 
    show ?thesis
      unfolding step Cons.IH using True by simp blast
  next
    case False
    then have step: "update_rows installed caller now wh s (r # rs) =
        (case update_rows installed caller now wh s rs of
                 Inl e \<Rightarrow> Inl e
               | Inr rs' \<Rightarrow> Inr ((False, r) # rs'))"
      by (auto simp add: row_visible_installed)
    show ?thesis
      unfolding step Cons.IH using False by auto
  qed
qed


lemma flagged_rows:
  "map snd (map (\<lambda>r. if P r then (True, g r) else (False, r)) rs) = map (\<lambda>r. if P r then g r else r) rs"
  by (induction rs) simp_all

lemma flagged_updated:
  "map snd (filter fst (map (\<lambda>r. if P r then (True, g r) else (False, r)) rs)) = map g (filter P rs)"
  by (induction rs) simp_all

lemma flagged_ids:
  "\<forall>r\<in>set rs. P r \<longrightarrow> p_id (g r) = p_id r \<Longrightarrow>
   map (p_id \<circ> snd) (map (\<lambda>r. if P r then (True, g r) else (False, r)) rs) = map p_id rs"
  by (induction rs) simp_all

lemma sql_update_installed:
  "sql_update installed caller now wh s d =
     (if \<exists>r\<in>set (profiles d). caller = Some (p_id r) \<and> wh r \<and> p_id (apply_set s r) \<noteq> p_id r
      then Inl InsufficientPrivilege
      else Inr (d\<lparr>profiles := map (\<lambda>r. if caller = Some (p_id r) \<and> wh r
                                          then update_updated_at_column now (apply_set s r)
                                          else r) (profiles d)\<rparr>,
                map (\<lambda>r. update_updated_at_column now (apply_set s r))
                    (filter (\<lambda>r. caller = Some (p_id r) \<and> wh r) (profiles d))))"
proof (cases "\<exists>r\<in>set (profiles d). caller = Some (p_id r) \<and> wh r \<and> p_id (apply_set s r) \<noteq> p_id r")
  case True
  then show ?thesis
    by (simp add: sql_update_def update_rows_installed)
next
  case False
  have id_upd: "p_id (update_updated_at_column now x) = p_id x" for x
    by (simp add: update_updated_at_column_def)
  have "\<forall>r\<in>set (profiles d). caller = Some (p_id r) \<and> wh r \<longrightarrow>
          p_id (update_updated_at_column now (apply_set s r)) = p_id r"
    using False by (simp add: id_upd)
  note ids = flagged_ids [OF this]
  have ur: "update_rows installed caller now wh s (profiles d) =
      Inr (map (\<lambda>r. if caller = Some (p_id r) \<and> wh r
                          then (True, update_updated_at_column now (apply_set s r))
                          else (False, r)) (profiles d))"
    using False by (simp add: update_rows_installed)
  show ?thesis
    using False
    by (simp only: sql_update_def ur sum.case ids flagged_rows flagged_updated simp_thms if_True if_False)
qed

lemma sql_insert_anonymous:
  "rows \<noteq> [] \<Longrightarrow> sql_insert installed None rows d = Inl InsufficientPrivilege"
  by (cases rows) (simp_all add: row_check_installed)

lemma sql_delete_anonymous: "sql_delete installed None wh d = (d, [])"
  by (simp add: sql_delete_def row_visible_installed)

lemma sql_update_anonymous: "sql_update installed None now wh s d = Inr (d, [])"
  by (simp add: sql_update_installed)


section \<open>Row security is by owner\<close>

text \<open>
  C1. With the policies of the scripts installed, a caller may select, insert or delete a
  row exactly when the caller's authenticated id is the row's id, and may update a row
  exactly when it is the id of both the old and the new row. For an anonymous caller
  every select, whatever its filter, order and limit, returns no row, every insert is
  rejected, and every update and delete leaves the table as it is and affects no row.
\<close>

theorem rls_owner_only:
  "(can_select installed caller row \<longleftrightarrow> caller = Some (p_id row)) \<and>
   (can_insert installed caller row \<longleftrightarrow> caller = Some (p_id row)) \<and>
   (can_update installed caller old new \<longleftrightarrow> caller = Some (p_id old) \<and> caller = Some (p_id new)) \<and>
   (can_delete installed caller row \<longleftrightarrow> caller = Some (p_id row)) \<and>
   sql_select installed None q d = [] \<and>
   (rows \<noteq> [] \<longrightarrow> sql_insert installed None rows d = Inl InsufficientPrivilege) \<and>
   sql_update installed None now wh s d = Inr (d, []) \<and>
   sql_delete installed None wh d = (d, [])"
  by (simp add: can_select_def can_insert_def can_update_def can_delete_def
        row_visible_installed row_check_installed sql_select_anonymous sql_insert_anonymous
        sql_update_anonymous sql_delete_anonymous)

theorem rls_owner_only_witness:
  "can_select installed (Some 1) (ann_profile 5 5) \<and>
   \<not> can_select installed (Some 2) (ann_profile 5 5) \<and>
   \<not> can_update installed (Some 1) (ann_profile 5 5) ((ann_profile 5 7)\<lparr>p_id := 2\<rparr>) \<and>
   \<not> can_delete installed None (ann_profile 5 5) \<and>
   sql_select installed None \<lparr>q_where = where_true, q_order = Some p_created_at, q_limit = Some 10\<rparr>
     \<lparr>users = [ann], profiles = [ann_profile 5 5]\<rparr> = [] \<and>
   [ann_profile 5 5] \<noteq> [] \<and>
   sql_insert installed None [ann_profile 5 5] empty_db = Inl InsufficientPrivilege"
  using rls_owner_only [where caller = "Some 1" and row = "ann_profile 5 5" and old = "ann_profile 5 5"
          and new = "(ann_profile 5 7)\<lparr>p_id := 2\<rparr>"
          and q = "\<lparr>q_where = where_true, q_order = Some p_created_at, q_limit = Some 10\<rparr>"
          and d = "\<lparr>users = [ann], profiles = [ann_profile 5 5]\<rparr>" and rows = "[ann_profile 5 5]"]
        rls_owner_only [where caller = "Some 2" and row = "ann_profile 5 5" and rows = "[ann_profile 5 5]"
          and d = empty_db]
        rls_owner_only [where caller = None and row = "ann_profile 5 5"]
  by (simp add: ann_profile_def)

section \<open>The timestamp trigger\<close>

text \<open>
  C3. Every update statement that assigns no id succeeds, and whenever an update succeeds,
  each row it targets is stored with the assigned columns and with \<open>updated_at\<close> equal
  to the server time of the statement, whatever value the statement assigned to
  \<open>updated_at\<close> and also when it assigns nothing; the other rows are unchanged.
\<close>

theorem updated_at_overwritten:
  "(set_id s = None \<longrightarrow> (\<exists>d' updated. sql_update installed caller now wh s d = Inr (d', updated))) \<and>
   (\<forall>d' updated. sql_update installed caller now wh s d = Inr (d', updated) \<longrightarrow>
      profiles d' = map (\<lambda>r. if caller = Some (p_id r) \<and> wh r
                               then (apply_set s r)\<lparr>p_updated_at := now\<rparr> else r) (profiles d) \<and>
      updated = map (\<lambda>r. (apply_set s r)\<lparr>p_updated_at := now\<rparr>)
                    (filter (\<lambda>r. caller = Some (p_id r) \<and> wh r) (profiles d)) \<and>
      (\<forall>r'\<in>set updated. p_updated_at r' = now))"
proof -
  have "set_id s = None \<Longrightarrow> p_id (apply_set s r) = p_id r" for r
    by (simp add: apply_set_def coalesce_def)
  then show ?thesis
    by (auto simp: sql_update_installed update_updated_at_column_def split: if_splits)
qed


theorem updated_at_overwritten_witness:
  "sql_update installed (Some 1) 7 (where_id_eq 1) (set_nothing\<lparr>set_updated_at := Some 3\<rparr>)
      \<lparr>users = [ann], profiles = [ann_profile 5 5]\<rparr>
     = Inr (\<lparr>users = [ann], profiles = [ann_profile 5 7]\<rparr>, [ann_profile 5 7]) \<and>
   p_updated_at (ann_profile 5 7) = 7 \<and>
   sql_update installed (Some 1) 7 (where_id_eq 1) set_nothing
      \<lparr>users = [ann], profiles = [ann_profile 5 5]\<rparr>
     = Inr (\<lparr>users = [ann], profiles = [ann_profile 5 7]\<rparr>, [ann_profile 5 7])"
proof -
  have supplied: "sql_update installed (Some 1) 7 (where_id_eq 1) (set_nothing\<lparr>set_updated_at := Some 3\<rparr>)
      \<lparr>users = [ann], profiles = [ann_profile 5 5]\<rparr>
     = Inr (\<lparr>users = [ann], profiles = [ann_profile 5 7]\<rparr>, [ann_profile 5 7])"
    by (simp add: sql_update_installed set_nothing_def apply_set_def coalesce_def where_id_eq_def
          ann_profile_def update_updated_at_column_def)
  have noop: "sql_update installed (Some 1) 7 (where_id_eq 1) set_nothing
      \<lparr>users = [ann], profiles = [ann_profile 5 5]\<rparr>
     = Inr (\<lparr>users = [ann], profiles = [ann_profile 5 7]\<rparr>, [ann_profile 5 7])"
    by (simp add: sql_update_installed set_nothing_def apply_set_def coalesce_def where_id_eq_def
          ann_profile_def update_updated_at_column_def)
  note stamped = updated_at_overwritten [THEN conjunct2, rule_format, OF supplied, THEN conjunct2, THEN conjunct2]
  from stamped have "p_updated_at (ann_profile 5 7) = 7"
    by simp
  with supplied noop show ?thesis
    by (intro conjI)
qed


section \<open>The provisioning trigger\<close>

lemma insert_auth_user_installed:
  "insert_auth_user installed now new d =
     (if u_id new \<in> set (map u_id (users d)) \<or> u_id new \<in> set (map p_id (profiles d))
      then Inl UniqueViolation
      else Inr \<lparr>users = users d @ [new], profiles = profiles d @ [new_profile now new]\<rparr>)"
  by (simp add: insert_auth_user_def fire_after_insert_user_installed handle_new_user_def)

lemma new_profile_fields:
  "p_id (new_profile now new) = u_id new" "p_email (new_profile now new) = u_email new"
  "p_avatar_url (new_profile now new) = None"
  "p_created_at (new_profile now new) = now" "p_updated_at (new_profile now new) = now"
  "p_full_name (new_profile now new) =
     Some (coalesce (json_get_text (u_raw_user_meta_data new) (of_ascii ''full_name'')) [])"
  by (simp_all add: new_profile_def default_avatar_url_def default_created_at_def default_updated_at_def)

text \<open>
  C2. Creating an identity whose id is new to both tables succeeds, and a successful
  creation appends exactly one profile row: its id and e-mail are the identity's, its
  \<open>full_name\<close> is the \<open>full_name\<close> string of the metadata when there is one and the
  empty string when the metadata or the member is missing, its \<open>avatar_url\<close> is null,
  and both timestamps are the server time.
\<close>

theorem provisioning_row:
  "(u_id new \<notin> set (map u_id (users d)) \<and> u_id new \<notin> set (map p_id (profiles d)) \<longrightarrow>
      (\<exists>d'. insert_auth_user installed now new d = Inr d')) \<and>
   (\<forall>d'. insert_auth_user installed now new d = Inr d' \<longrightarrow>
      (\<exists>row. profiles d' = profiles d @ [row] \<and>
         p_id row = u_id new \<and> p_email row = u_email new \<and> p_avatar_url row = None \<and>
         (\<forall>ms v. u_raw_user_meta_data new = Some (JObject ms) \<and>
                 map_of ms (of_ascii ''full_name'') = Some (JString v) \<longrightarrow> p_full_name row = Some v) \<and>
         (u_raw_user_meta_data new = None \<or>
          (\<exists>ms. u_raw_user_meta_data new = Some (JObject ms) \<and>
                map_of ms (of_ascii ''full_name'') = None) \<longrightarrow> p_full_name row = Some []) \<and>
         p_created_at row = now \<and> p_updated_at row = now))"
  by (auto simp: insert_auth_user_installed new_profile_fields json_get_text_def coalesce_def
         split: if_splits)


theorem provisioning_row_witness:
  "u_id ann \<notin> set (map u_id (users empty_db)) \<and> u_id ann \<notin> set (map p_id (profiles empty_db)) \<and>
   insert_auth_user installed 5 ann empty_db = Inr \<lparr>users = [ann], profiles = [ann_profile 5 5]\<rparr> \<and>
   (\<exists>row. profiles \<lparr>users = [ann], profiles = [ann_profile 5 5]\<rparr> = profiles empty_db @ [row] \<and>
          p_id row = u_id ann \<and> p_email row = u_email ann \<and> p_avatar_url row = None \<and>
          p_full_name row = Some (of_ascii ''Ann''))"
proof -
  have fresh: "u_id ann \<notin> set (map u_id (users empty_db)) \<and> u_id ann \<notin> set (map p_id (profiles empty_db))"
    by (simp add: empty_db_def)
  have created: "insert_auth_user installed 5 ann empty_db = Inr \<lparr>users = [ann], profiles = [ann_profile 5 5]\<rparr>"
    by (simp add: insert_auth_user_installed empty_db_def ann_def ann_profile_def new_profile_def
          json_get_text_def coalesce_def default_avatar_url_def default_created_at_def
          default_updated_at_def)
  have meta: "u_raw_user_meta_data ann = Some (JObject [(of_ascii ''full_name'', JString (of_ascii ''Ann''))]) \<and>
              map_of [(of_ascii ''full_name'', JString (of_ascii ''Ann''))] (of_ascii ''full_name'')
                = Some (JString (of_ascii ''Ann''))"
    by (simp add: ann_def)
  from provisioning_row [THEN conjunct2, rule_format, OF created]
  obtain row where row: "profiles \<lparr>users = [ann], profiles = [ann_profile 5 5]\<rparr> = profiles empty_db @ [row]"
      "p_id row = u_id ann" "p_email row = u_email ann" "p_avatar_url row = None"
      "\<forall>ms v. u_raw_user_meta_data ann = Some (JObject ms) \<and>
                 map_of ms (of_ascii ''full_name'') = Some (JString v) \<longrightarrow> p_full_name row = Some v"
    by blast
  from row(5) meta have "p_full_name row = Some (of_ascii ''Ann'')"
    by blast
  with row fresh created show ?thesis
    by blast
qed


lemma commit_simps: "commit d (Inl e) = d" "commit d (Inr d') = d'"
  by (simp_all add: commit_def)

text \<open>
  C6. The outcome of creating an identity is the outcome of the provisioning trigger: if
  the trigger's insert fails, as it does when a profile with the id exists, the creation
  fails and the committed state is the state before, without the identity; if the creation
  succeeds, the identity and a profile with its id both exist. So a creation never takes
  a state in which every identity has a profile to one in which some identity has none.
\<close>

theorem provisioning_atomic:
  "(u_id new \<notin> set (map u_id (users d)) \<longrightarrow>
      insert_auth_user installed now new d = handle_new_user now new (d\<lparr>users := users d @ [new]\<rparr>)) \<and>
   (u_id new \<in> set (map p_id (profiles d)) \<longrightarrow>
      insert_auth_user installed now new d = Inl UniqueViolation) \<and>
   (\<forall>e. insert_auth_user installed now new d = Inl e \<longrightarrow>
      commit d (insert_auth_user installed now new d) = d) \<and>
   (\<forall>d'. insert_auth_user installed now new d = Inr d' \<longrightarrow>
      new \<in> set (users d') \<and> u_id new \<in> set (map p_id (profiles d'))) \<and>
   (every_identity_has_profile d \<longrightarrow>
      every_identity_has_profile (commit d (insert_auth_user installed now new d)))"
proof (intro conjI impI allI)
  assume "u_id new \<notin> set (map u_id (users d))"
  then show "insert_auth_user installed now new d = handle_new_user now new (d\<lparr>users := users d @ [new]\<rparr>)"
    by (simp add: insert_auth_user_def fire_after_insert_user_installed)
next
  assume "u_id new \<in> set (map p_id (profiles d))"
  then show "insert_auth_user installed now new d = Inl UniqueViolation"
    by (simp add: insert_auth_user_installed)
next
  fix e assume "insert_auth_user installed now new d = Inl e"
  then show "commit d (insert_auth_user installed now new d) = d"
    by (simp add: commit_simps)
next
  fix d' assume "insert_auth_user installed now new d = Inr d'"
  then have "d' = \<lparr>users = users d @ [new], profiles = profiles d @ [new_profile now new]\<rparr>"
    by (simp add: insert_auth_user_installed split: if_splits)
  then show "new \<in> set (users d')" and "u_id new \<in> set (map p_id (profiles d'))"
    by (simp_all add: new_profile_fields)
next
  assume inv: "every_identity_has_profile d"
  show "every_identity_has_profile (commit d (insert_auth_user installed now new d))"
  proof (cases "u_id new \<in> set (map u_id (users d)) \<or> u_id new \<in> set (map p_id (profiles d))")
    case True
    then have "insert_auth_user installed now new d = Inl UniqueViolation"
      by (simp add: insert_auth_user_installed)
    with inv show ?thesis
      by (simp add: commit_simps)
  next
    case False
    then have "commit d (insert_auth_user installed now new d)
        = \<lparr>users = users d @ [new], profiles = profiles d @ [new_profile now new]\<rparr>"
      by (simp add: insert_auth_user_installed commit_simps)
    with inv show ?thesis
      by (auto simp: every_identity_has_profile_def new_profile_fields)
  qed
qed

theorem provisioning_atomic_witness:
  "u_id ann \<notin> set (map u_id (users \<lparr>users = [], profiles = [ann_profile 3 3]\<rparr>)) \<and>
   u_id ann \<in> set (map p_id (profiles \<lparr>users = [], profiles = [ann_profile 3 3]\<rparr>)) \<and>
   every_identity_has_profile \<lparr>users = [], profiles = [ann_profile 3 3]\<rparr> \<and>
   insert_auth_user installed 5 ann \<lparr>users = [], profiles = [ann_profile 3 3]\<rparr> = Inl UniqueViolation \<and>
   commit \<lparr>users = [], profiles = [ann_profile 3 3]\<rparr>
      (insert_auth_user installed 5 ann \<lparr>users = [], profiles = [ann_profile 3 3]\<rparr>)
     = \<lparr>users = [], profiles = [ann_profile 3 3]\<rparr> \<and>
   every_identity_has_profile (commit \<lparr>users = [], profiles = [ann_profile 3 3]\<rparr>
      (insert_auth_user installed 5 ann \<lparr>users = [], profiles = [ann_profile 3 3]\<rparr>))"
proof -
  let ?d = "\<lparr>users = [], profiles = [ann_profile 3 3]\<rparr>"
  have no_user: "u_id ann \<notin> set (map u_id (users ?d))"
    by simp
  have dup: "u_id ann \<in> set (map p_id (profiles ?d))"
    by (simp add: ann_def ann_profile_def)
  have inv: "every_identity_has_profile ?d"
    by (simp add: every_identity_has_profile_def)
  note t = provisioning_atomic [where new = ann and d = ?d and now = 5]
  from t dup have fails: "insert_auth_user installed 5 ann ?d = Inl UniqueViolation"
    by blast
  from t fails have same: "commit ?d (insert_auth_user installed 5 ann ?d) = ?d"
    by blast
  from t inv have "every_identity_has_profile (commit ?d (insert_auth_user installed 5 ann ?d))"
    by blast
  with no_user dup inv fails same show ?thesis
    by blast
qed


section \<open>Fetching a profile\<close>

lemma single_Nil: "single [] = Inl PGRST116"
  by (simp add: single_def)

lemma sql_select_installed:
  "sql_select installed caller \<lparr>q_where = wh, q_order = None, q_limit = None\<rparr> d
     = filter (\<lambda>r. caller = Some (p_id r) \<and> wh r) (profiles d)"
  by (simp add: sql_select_def row_visible_installed)

text \<open>
  C5. \<open>getProfile\<close> returns null when no row has the id, and also when the caller is
  not the identity asked for, whether the row exists or not; in both cases the API's
  answer is the same error, PGRST116.
\<close>

theorem getProfile_not_found:
  "(userId \<notin> set (map p_id (profiles d)) \<longrightarrow>
      getProfile installed caller userId d = None \<and>
      getProfile_response installed caller userId d = Inl PGRST116) \<and>
   (caller \<noteq> Some userId \<longrightarrow>
      getProfile installed caller userId d = None \<and>
      getProfile_response installed caller userId d = Inl PGRST116)"
proof -
  have "filter (\<lambda>r. caller = Some (p_id r) \<and> where_id_eq userId r) (profiles d) = []"
    if "userId \<notin> set (map p_id (profiles d)) \<or> caller \<noteq> Some userId"
    using that by (auto simp: filter_empty_conv where_id_eq_def)
  then show ?thesis
    by (simp add: getProfile_def getProfile_response_def sql_select_installed single_Nil)
qed

theorem getProfile_not_found_witness:
  "(7::uuid) \<notin> set (map p_id (profiles \<lparr>users = [ann], profiles = [ann_profile 5 5]\<rparr>)) \<and>
   getProfile installed (Some 7) 7 \<lparr>users = [ann], profiles = [ann_profile 5 5]\<rparr> = None \<and>
   Some (2::uuid) \<noteq> Some 1 \<and>
   getProfile installed (Some 2) 1 \<lparr>users = [ann], profiles = [ann_profile 5 5]\<rparr> = None \<and>
   getProfile_response installed (Some 7) 7 \<lparr>users = [ann], profiles = [ann_profile 5 5]\<rparr>
     = getProfile_response installed (Some 2) 1 \<lparr>users = [ann], profiles = [ann_profile 5 5]\<rparr> \<and>
   getProfile installed (Some 1) 1 \<lparr>users = [ann], profiles = [ann_profile 5 5]\<rparr> = Some (ann_profile 5 5)"
proof -
  let ?d = "\<lparr>users = [ann], profiles = [ann_profile 5 5]\<rparr>"
  have absent: "(7::uuid) \<notin> set (map p_id (profiles ?d))"
    by (simp add: ann_profile_def)
  have other: "Some (2::uuid) \<noteq> Some 1"
    by simp
  note missing = getProfile_not_found [where d = ?d and userId = 7 and caller = "Some 7",
      THEN conjunct1, rule_format, OF absent]
  note denied = getProfile_not_found [where d = ?d and userId = 1 and caller = "Some 2",
      THEN conjunct2, rule_format, OF other]
  have owner: "getProfile installed (Some 1) 1 ?d = Some (ann_profile 5 5)"
    by (simp add: getProfile_def getProfile_response_def sql_select_installed single_def
          where_id_eq_def ann_profile_def)
  from absent other missing denied owner show ?thesis
    by simp
qed


section \<open>Updating a profile\<close>

lemma stored_update_eq:
  "update_updated_at_column now (apply_set (set_of_updates u) r) = stored_update now u r"
  by (cases "upd_full_name u"; cases "upd_avatar_url u")
     (simp_all add: update_updated_at_column_def apply_set_def set_of_updates_def stored_update_def
        coalesce_def)

lemma set_of_updates_keeps_id: "p_id (apply_set (set_of_updates u) r) = p_id r"
  by (simp add: apply_set_def set_of_updates_def coalesce_def)

lemma updateProfile_installed:
  "updateProfile installed (Some c) now i u d =
     (d\<lparr>profiles := map (\<lambda>r. if Some c = Some (p_id r) \<and> where_id_eq i r
                               then stored_update now u r else r) (profiles d)\<rparr>,
      single (map (stored_update now u)
                  (filter (\<lambda>r. Some c = Some (p_id r) \<and> where_id_eq i r) (profiles d))))"
  by (simp add: updateProfile_def sql_update_installed set_of_updates_keeps_id stored_update_eq)

lemma filter_absent_key:
  "k \<notin> set (map p_id rows) \<Longrightarrow> filter (\<lambda>x. p_id x = k) rows = []"
  by (induction rows) auto

lemma filter_key_unique:
  "distinct (map p_id rows) \<Longrightarrow> r \<in> set rows \<Longrightarrow> filter (\<lambda>x. p_id x = p_id r) rows = [r]"
proof (induction rows)
  case Nil
  then show ?case by simp
next
  case (Cons a rows)
  show ?case
  proof (cases "a = r")
    case True
    with Cons.prems have "p_id r \<notin> set (map p_id rows)"
      by simp
    then have "filter (\<lambda>x. p_id x = p_id r) rows = []"
      by (rule filter_absent_key)
    with True show ?thesis by simp
  next
    case False
    with Cons.prems have in_rows: "r \<in> set rows" and "p_id a \<in> set (map p_id rows) \<Longrightarrow> False"
      by simp_all
    then have "p_id a \<noteq> p_id r"
      by auto
    with Cons in_rows show ?thesis by simp
  qed
qed

text \<open>
  C4. A call of \<open>updateProfile\<close> by the owning identity changes, in the owner's row, only
  \<open>full_name\<close> and \<open>avatar_url\<close> (each only when supplied) and sets \<open>updated_at\<close> to
  the server time, whatever \<open>updated_at\<close> the caller supplied; \<open>id\<close>, \<open>email\<close> and
  \<open>created_at\<close> of the row, every other row and the identities are unchanged. With a
  primary key on \<open>id\<close> the call returns the stored row. Through the edit form the two
  columns receive the trimmed form fields.
\<close>

theorem updateProfile_frame:
  "fst (updateProfile installed (Some uid) now uid u d) =
     d\<lparr>profiles := map (\<lambda>r. if p_id r = uid then stored_update now u r else r) (profiles d)\<rparr> \<and>
   (\<forall>r. distinct (map p_id (profiles d)) \<and> r \<in> set (profiles d) \<and> p_id r = uid \<longrightarrow>
      snd (updateProfile installed (Some uid) now uid u d) = Inr (stored_update now u r)) \<and>
   (\<forall>r. p_id (stored_update now u r) = p_id r \<and> p_email (stored_update now u r) = p_email r \<and>
        p_created_at (stored_update now u r) = p_created_at r \<and>
        p_updated_at (stored_update now u r) = now) \<and>
   fst (handleSubmit installed (Some uid) now formData d) =
     d\<lparr>profiles := map (\<lambda>r. if p_id r = uid
                               then r\<lparr>p_full_name := Some (trim (fd_full_name formData)),
                                      p_avatar_url := Some (trim (fd_avatar_url formData)),
                                      p_updated_at := now\<rparr>
                               else r) (profiles d)\<rparr>"
proof (intro conjI allI impI)
  have cond: "(uid = p_id r \<and> where_id_eq uid r) \<longleftrightarrow> p_id r = uid" for r
    by (auto simp: where_id_eq_def)
  show "fst (updateProfile installed (Some uid) now uid u d) =
     d\<lparr>profiles := map (\<lambda>r. if p_id r = uid then stored_update now u r else r) (profiles d)\<rparr>"
    by (simp add: updateProfile_installed cond)
  show "fst (handleSubmit installed (Some uid) now formData d) =
     d\<lparr>profiles := map (\<lambda>r. if p_id r = uid
                               then r\<lparr>p_full_name := Some (trim (fd_full_name formData)),
                                      p_avatar_url := Some (trim (fd_avatar_url formData)),
                                      p_updated_at := now\<rparr>
                               else r) (profiles d)\<rparr>"
    by (simp add: handleSubmit_def updateProfile_installed cond stored_update_def
          updates_of_form_def sanitizeProfileData_def)
  fix r
  show "p_id (stored_update now u r) = p_id r" "p_email (stored_update now u r) = p_email r"
       "p_created_at (stored_update now u r) = p_created_at r"
       "p_updated_at (stored_update now u r) = now"
    by (simp_all add: stored_update_def)
  assume a: "distinct (map p_id (profiles d)) \<and> r \<in> set (profiles d) \<and> p_id r = uid"
  then have "filter (\<lambda>x. p_id x = p_id r) (profiles d) = [r]"
    by (intro filter_key_unique) simp_all
  with a have "filter (\<lambda>x. p_id x = uid) (profiles d) = [r]"
    by simp
  then show "snd (updateProfile installed (Some uid) now uid u d) = Inr (stored_update now u r)"
    by (simp add: updateProfile_installed cond single_def)
qed


theorem updateProfile_frame_witness:
  "distinct (map p_id (profiles \<lparr>users = [ann], profiles = [ann_profile 5 5]\<rparr>)) \<and>
   ann_profile 5 5 \<in> set (profiles \<lparr>users = [ann], profiles = [ann_profile 5 5]\<rparr>) \<and>
   p_id (ann_profile 5 5) = 1 \<and>
   updateProfile installed (Some 1) 7 1
      \<lparr>upd_full_name = None, upd_avatar_url = Some (of_ascii ''https://cdn/x.png''),
       upd_updated_at = Some 3\<rparr>
      \<lparr>users = [ann], profiles = [ann_profile 5 5]\<rparr>
     = (\<lparr>users = [ann],
         profiles = [(ann_profile 5 7)\<lparr>p_avatar_url := Some (of_ascii ''https://cdn/x.png'')\<rparr>]\<rparr>,
        Inr ((ann_profile 5 7)\<lparr>p_avatar_url := Some (of_ascii ''https://cdn/x.png'')\<rparr>))"
proof -
  let ?d = "\<lparr>users = [ann], profiles = [ann_profile 5 5]\<rparr>"
  let ?u = "\<lparr>upd_full_name = None, upd_avatar_url = Some (of_ascii ''https://cdn/x.png''),
             upd_updated_at = Some 3\<rparr>"
  have owner: "distinct (map p_id (profiles ?d)) \<and> ann_profile 5 5 \<in> set (profiles ?d) \<and>
               p_id (ann_profile 5 5) = 1"
    by (simp add: ann_profile_def)
  have stored: "stored_update 7 ?u (ann_profile 5 5)
                  = (ann_profile 5 7)\<lparr>p_avatar_url := Some (of_ascii ''https://cdn/x.png'')\<rparr>"
    by (simp add: stored_update_def ann_profile_def)
  note t = updateProfile_frame [where uid = 1 and now = 7 and u = ?u and d = ?d]
  from t have "fst (updateProfile installed (Some 1) 7 1 ?u ?d) =
     ?d\<lparr>profiles := map (\<lambda>r. if p_id r = 1 then stored_update 7 ?u r else r) (profiles ?d)\<rparr>"
    by (rule conjunct1)
  then have state: "fst (updateProfile installed (Some 1) 7 1 ?u ?d) =
      \<lparr>users = [ann], profiles = [(ann_profile 5 7)\<lparr>p_avatar_url := Some (of_ascii ''https://cdn/x.png'')\<rparr>]\<rparr>"
    using stored by (simp add: ann_profile_def)
  from t owner have "snd (updateProfile installed (Some 1) 7 1 ?u ?d) = Inr (stored_update 7 ?u (ann_profile 5 5))"
    by blast
  with stored have result: "snd (updateProfile installed (Some 1) 7 1 ?u ?d)
      = Inr ((ann_profile 5 7)\<lparr>p_avatar_url := Some (of_ascii ''https://cdn/x.png'')\<rparr>)"
    by simp
  from state result have "updateProfile installed (Some 1) 7 1 ?u ?d
     = (\<lparr>users = [ann],
         profiles = [(ann_profile 5 7)\<lparr>p_avatar_url := Some (of_ascii ''https://cdn/x.png'')\<rparr>]\<rparr>,
        Inr ((ann_profile 5 7)\<lparr>p_avatar_url := Some (of_ascii ''https://cdn/x.png'')\<rparr>))"
    by (simp add: prod_eq_iff)
  with owner show ?thesis
    by blast
qed


section \<open>Timestamps along sequences of operations\<close>

































end
